theory Spec2Isabelle
  imports Main "HOL-Library.Word"
begin

section \<open>The BERT handler of src/examples/cpp/aot_inductor/bert/src/bert_handler.cc\<close>

text \<open>
  A shallow embedding of \<^verbatim>\<open>BertCppHandler\<close>: \<^verbatim>\<open>LoadJsonFile\<close>, \<^verbatim>\<open>GetJsonValue\<close>,
  \<^verbatim>\<open>LoadModel\<close>, \<^verbatim>\<open>Preprocess\<close> and \<^verbatim>\<open>Postprocess\<close>. Member fields and the
  reference arguments the C++ mutates are passed in and returned. The tokenizer, the file
  system, the JSON parser and the model runner are collaborators outside the file; they
  enter as parameters. Logging calls are taken to return; the error lines of
  \<^verbatim>\<open>Preprocess\<close> are recorded, and so is the line logged before a bare \<^verbatim>\<open>throw;\<close>.
  \<^verbatim>\<open>Inference\<close> hands the batch to the runner and is not modelled.
\<close>

subsection \<open>Exceptions, aborts and log lines\<close>

text \<open>
  The handlers of the file catch \<^verbatim>\<open>std::runtime_error\<close> and \<^verbatim>\<open>c10::Error\<close>. A bare
  \<^verbatim>\<open>throw;\<close> evaluated while no exception is being handled does not raise either: it
  calls \<^verbatim>\<open>std::terminate\<close>, which ends the process; no handler intercepts it.
\<close>

datatype exn = runtime_error | c10_Error

datatype log_line =
    FileNotFound string
  | RequiredFieldNotFound string
  | EmptyPayloadForRequest string
  | PromptTooLong int int
  | FailedToLoadTensor string exn

datatype failure =
    Throw exn
  | Terminate log_line \<comment> \<open>\<^verbatim>\<open>throw;\<close> outside a handler, after the given error was logged\<close>
  | NullDereference \<comment> \<open>a call through a null \<^verbatim>\<open>shared_ptr\<close>\<close>

subsection \<open>Decimal printing (\<^verbatim>\<open>std::to_string\<close>)\<close>

definition digit_char :: "nat \<Rightarrow> char" where
  "digit_char d = ''0123456789'' ! d"

fun string_of_nat :: "nat \<Rightarrow> string" where
  "string_of_nat n =
     (if n < 10 then [digit_char n] else string_of_nat (n div 10) @ [digit_char (n mod 10)])"

declare string_of_nat.simps [simp del]

definition to_string :: "int \<Rightarrow> string" where
  "to_string i = (if i < 0 then CHR ''-'' # string_of_nat (nat (- i)) else string_of_nat (nat i))"

subsection \<open>JSON documents (\<^verbatim>\<open>folly::dynamic\<close>)\<close>

text \<open>
  Null, integers, strings, arrays and objects. Doubles and booleans, which folly prints
  and converts through its own formatting routines, are left out.
\<close>

datatype dynamic =
    DNull
  | DInt int
  | DString string
  | DArray "dynamic list"
  | DObject "(string \<times> dynamic) list"

text \<open>\<^verbatim>\<open>asString\<close> converts scalars and raises \<^verbatim>\<open>TypeError\<close> (a \<^verbatim>\<open>std::runtime_error\<close>)
  on the other types.\<close>

fun asString :: "dynamic \<Rightarrow> failure + string" where
  "asString (DString s) = Inr s"
| "asString (DInt n) = Inr (to_string n)"
| "asString DNull = Inl (Throw runtime_error)"
| "asString (DArray _) = Inl (Throw runtime_error)"
| "asString (DObject _) = Inl (Throw runtime_error)"

text \<open>\<^verbatim>\<open>asInt\<close>: the conversion of a string value to a number is folly's; it is the
  parameter \<open>str_to_int\<close>.\<close>

fun asInt :: "(string \<Rightarrow> exn + int) \<Rightarrow> dynamic \<Rightarrow> failure + int" where
  "asInt str_to_int (DInt n) = Inr n"
| "asInt str_to_int (DString s) = (case str_to_int s of Inl e \<Rightarrow> Inl (Throw e) | Inr n \<Rightarrow> Inr n)"
| "asInt str_to_int DNull = Inl (Throw runtime_error)"
| "asInt str_to_int (DArray _) = Inl (Throw runtime_error)"
| "asInt str_to_int (DObject _) = Inl (Throw runtime_error)"

text \<open>
  \<^verbatim>\<open>GetJsonValue\<close> (lines 15-22): the value under the key, or the error is logged and
  \<^verbatim>\<open>throw;\<close> runs with no exception in flight. \<^verbatim>\<open>find\<close> on a document that is not an
  object raises \<^verbatim>\<open>TypeError\<close>.
\<close>

fun GetJsonValue :: "dynamic \<Rightarrow> string \<Rightarrow> failure + dynamic" where
  "GetJsonValue (DObject items) key =
     (case map_of items key of
        Some v \<Rightarrow> Inr v
      | None \<Rightarrow> Inl (Terminate (RequiredFieldNotFound key)))"
| "GetJsonValue DNull key = Inl (Throw runtime_error)"
| "GetJsonValue (DInt _) key = Inl (Throw runtime_error)"
| "GetJsonValue (DString _) key = Inl (Throw runtime_error)"
| "GetJsonValue (DArray _) key = Inl (Throw runtime_error)"

subsection \<open>The handler's fields and its collaborators\<close>

record Tokenizer =
  Encode :: "string \<Rightarrow> exn + int list"
  TokenToId :: "string \<Rightarrow> int"

text \<open>The fields \<^verbatim>\<open>mapping_json_\<close>, \<^verbatim>\<open>config_json_\<close>, \<^verbatim>\<open>max_length_\<close> and \<^verbatim>\<open>tokenizer_\<close>,
  written without the trailing underscore.\<close>

record BertCppHandler =
  mapping_json :: dynamic
  config_json :: dynamic
  max_length :: int
  tokenizer :: Tokenizer

record device =
  is_cuda :: bool
  str :: string

datatype runner =
    AOTIModelContainerRunnerCuda string nat string
  | AOTIModelContainerRunnerCpu string

record LoadModelRequest =
  model_dir :: string
  model_name :: string
  gpu_id :: int

record environment =
  GetTorchDevice :: "LoadModelRequest \<Rightarrow> exn + device"
  readFile :: "string \<Rightarrow> string option"
  parseJson :: "string \<Rightarrow> exn + dynamic"
  str_to_int :: "string \<Rightarrow> exn + int"
  FromBlobJSON :: "string \<Rightarrow> exn + Tokenizer"
  open_runner :: "runner \<Rightarrow> exn option" \<comment> \<open>the runner's constructor may raise\<close>

subsection \<open>\<^verbatim>\<open>LoadJsonFile\<close> and \<^verbatim>\<open>LoadModel\<close>\<close>

text \<open>Lines 6-13: an unreadable file is logged and \<^verbatim>\<open>throw;\<close> runs.\<close>

definition LoadJsonFile :: "environment \<Rightarrow> string \<Rightarrow> failure + dynamic" where
  "LoadJsonFile env file_path =
     (case readFile env file_path of
        None \<Rightarrow> Inl (Terminate (FileNotFound file_path))
      | Some content \<Rightarrow>
          (case parseJson env content of Inl e \<Rightarrow> Inl (Throw e) | Inr d \<Rightarrow> Inr d))"

text \<open>\<^verbatim>\<open>fmt::format("{}/{}", dir, name)\<close>.\<close>

definition path_join :: "string \<Rightarrow> string \<Rightarrow> string" where
  "path_join dir name = dir @ ''/'' @ name"

text \<open>\<^verbatim>\<open>static_cast<int>\<close> of a 64-bit value keeps the low 32 bits.\<close>

definition static_cast_int :: "int \<Rightarrow> int" where
  "static_cast_int n = sint (word_of_int n :: 32 word)"

text \<open>
  What a call of \<^verbatim>\<open>LoadModel\<close> leaves behind: the pair it returns together with the
  fields it has set; or an exception that leaves the function, with the fields as they
  are at that moment; or the end of the process.
\<close>

datatype load_outcome =
    Loaded BertCppHandler runner device
  | Throws exn BertCppHandler
  | Terminated log_line
  | Crashed

text \<open>The two handlers of lines 55-65 log and rethrow; every other failure passes.\<close>

fun leave :: "failure \<Rightarrow> BertCppHandler \<Rightarrow> load_outcome" where
  "leave (Throw e) h = Throws e h"
| "leave (Terminate l) h = Terminated l"
| "leave NullDereference h = Crashed"

definition config_string :: "dynamic \<Rightarrow> string \<Rightarrow> failure + string" where
  "config_string config key =
     (case GetJsonValue config key of Inl f \<Rightarrow> Inl f | Inr v \<Rightarrow> asString v)"

text \<open>Line 37.\<close>

definition read_max_length :: "environment \<Rightarrow> dynamic \<Rightarrow> failure + int" where
  "read_max_length env config =
     (case GetJsonValue config ''max_length'' of
        Inl f \<Rightarrow> Inl f
      | Inr v \<Rightarrow>
          (case asInt (str_to_int env) v of
             Inl f \<Rightarrow> Inl f
           | Inr n \<Rightarrow> Inr (static_cast_int n)))"

text \<open>Lines 39-41.\<close>

definition load_tokenizer :: "environment \<Rightarrow> string \<Rightarrow> dynamic \<Rightarrow> failure + Tokenizer" where
  "load_tokenizer env dir config =
     (case config_string config ''tokenizer_path'' of
        Inl f \<Rightarrow> Inl f
      | Inr name \<Rightarrow>
          (case LoadJsonFile env (path_join dir name) of
             Inl f \<Rightarrow> Inl f
           | Inr tokenizer_json \<Rightarrow>
               (case asString tokenizer_json of
                  Inl f \<Rightarrow> Inl f
                | Inr tokenizer_blob \<Rightarrow>
                    (case FromBlobJSON env tokenizer_blob of
                       Inl e \<Rightarrow> Inl (Throw e)
                     | Inr t \<Rightarrow> Inr t))))"

definition mapFilePath :: "LoadModelRequest \<Rightarrow> string" where
  "mapFilePath load_model_request = path_join (model_dir load_model_request) ''index_to_name.json''"

definition configFilePath :: "LoadModelRequest \<Rightarrow> string" where
  "configFilePath load_model_request = path_join (model_dir load_model_request) ''config.json''"

text \<open>Lines 27-65.\<close>

definition LoadModel :: "environment \<Rightarrow> LoadModelRequest \<Rightarrow> BertCppHandler \<Rightarrow> load_outcome" where
  "LoadModel env load_model_request h =
     (case GetTorchDevice env load_model_request of
        Inl e \<Rightarrow> Throws e h
      | Inr dev \<Rightarrow>
     (case LoadJsonFile env (mapFilePath load_model_request) of
        Inl f \<Rightarrow> leave f h
      | Inr mapping \<Rightarrow>
     (case LoadJsonFile env (configFilePath load_model_request) of
        Inl f \<Rightarrow> leave f (h\<lparr>mapping_json := mapping\<rparr>)
      | Inr config \<Rightarrow>
     (case read_max_length env config of
        Inl f \<Rightarrow> leave f (h\<lparr>mapping_json := mapping, config_json := config\<rparr>)
      | Inr n \<Rightarrow>
     (case load_tokenizer env (model_dir load_model_request) config of
        Inl f \<Rightarrow> leave f (h\<lparr>mapping_json := mapping, config_json := config, max_length := n\<rparr>)
      | Inr t \<Rightarrow>
     (let loaded = \<lparr>mapping_json = mapping, config_json = config, max_length = n, tokenizer = t\<rparr>
      in case config_string config ''model_so_path'' of
           Inl f \<Rightarrow> leave f loaded
         | Inr so_file \<Rightarrow>
             (let model_so_path = path_join (model_dir load_model_request) so_file;
                  r = (if is_cuda dev
                       then AOTIModelContainerRunnerCuda model_so_path 1 (str dev)
                       else AOTIModelContainerRunnerCpu model_so_path)
              in case open_runner env r of
                   Some e \<Rightarrow> Throws e loaded
                 | None \<Rightarrow> Loaded loaded r dev)))))))"

subsection \<open>Requests, responses and the row tracker\<close>

text \<open>Modelled from the spec: the request class is declared outside src/; a request is
  \<open>{request_id, headers, parameters}\<close>, the parameters holding the raw payload bytes.\<close>

record InferenceRequest =
  request_id :: string
  headers :: "string \<rightharpoonup> string"
  parameters :: "string \<rightharpoonup> string"

text \<open>Modelled from the spec: the response class is declared outside src/; a response is
  \<open>{request_id, status_code, content_type, body}\<close>, created as a placeholder and mutated in
  place. The content type is the header entry that \<^verbatim>\<open>SetResponse\<close> writes.\<close>

record InferenceResponse =
  response_id :: string
  status_code :: "int option"
  content_type :: "string \<rightharpoonup> string"
  body :: string

definition new_InferenceResponse :: "string \<Rightarrow> InferenceResponse" where
  "new_InferenceResponse rid =
     \<lparr>response_id = rid, status_code = None, content_type = Map.empty, body = []\<rparr>"

definition SetResponse :: "int \<Rightarrow> string \<Rightarrow> string \<Rightarrow> string \<Rightarrow> InferenceResponse \<Rightarrow> InferenceResponse" where
  "SetResponse new_code header_key header_val new_msg r =
     r\<lparr>status_code := Some new_code,
       content_type := (content_type r)(header_key \<mapsto> header_val),
       body := new_msg\<rparr>"

text \<open>The string constants of \<^verbatim>\<open>torchserve::PayloadType\<close> are declared outside src/; they
  are parameters.\<close>

record PayloadType =
  kPARAMETER_NAME_DATA :: string
  kHEADER_NAME_DATA_TYPE :: string
  kPARAMETER_NAME_BODY :: string
  kHEADER_NAME_BODY_TYPE :: string
  kCONTENT_TYPE_TEXT :: string
  kDATA_TYPE_STRING :: string

text \<open>Modelled from the spec: \<^verbatim>\<open>Converter::VectorToStr\<close> is defined outside src/; it decodes
  the payload bytes to text. Payload bytes and text are both \<open>char\<close> lists here.\<close>

definition VectorToStr :: "string \<Rightarrow> string" where
  "VectorToStr bytes = bytes"

text \<open>
  \<^verbatim>\<open>std::map<uint8_t, std::string>\<close>: the entries in ascending key order, which is the
  order a range-for visits them in. \<open>map_assign m k v\<close> is \<^verbatim>\<open>m[k] = v\<close>.
\<close>

type_synonym uint8_t = "8 word"

fun map_assign :: "('k::linorder \<times> 'v) list \<Rightarrow> 'k \<Rightarrow> 'v \<Rightarrow> ('k \<times> 'v) list" where
  "map_assign [] k v = [(k, v)]"
| "map_assign (e # es) k v =
     (if fst e < k then e # map_assign es k v
      else if fst e = k then (k, v) # es
      else (k, v) # e # es)"

subsection \<open>\<^verbatim>\<open>Preprocess\<close>\<close>

text \<open>The variables the loop of lines 77-135 updates.\<close>

record preprocess_state =
  idx :: uint8_t
  aggregate :: string \<comment> \<open>\<^verbatim>\<open>idx_to_req_id.first\<close>\<close>
  idx_map :: "(uint8_t \<times> string) list" \<comment> \<open>\<^verbatim>\<open>idx_to_req_id.second\<close>\<close>
  tokens_ivalue :: "int list list"
  responses :: "string \<rightharpoonup> InferenceResponse"
  logs :: "log_line list"

text \<open>Lines 81-83.\<close>

definition append_id :: "string \<Rightarrow> string \<Rightarrow> string" where
  "append_id first rid = first @ (if first = [] then rid else '','' @ rid)"

text \<open>Lines 85-94: the data parameter with the data header, or, when the data
  parameter is absent, the body parameter with the body header.\<close>

definition find_payload :: "PayloadType \<Rightarrow> InferenceRequest \<Rightarrow> string option \<times> string option" where
  "find_payload pt request =
     (let data_it = parameters request (kPARAMETER_NAME_DATA pt);
          dtype_it = headers request (kHEADER_NAME_DATA_TYPE pt)
      in if data_it = None
         then (parameters request (kPARAMETER_NAME_BODY pt),
               headers request (kHEADER_NAME_BODY_TYPE pt))
         else (data_it, dtype_it))"

text \<open>Lines 109-116: an over-long sequence is logged and left as it is, a short one is
  padded.\<close>

definition pad_token_ids :: "BertCppHandler \<Rightarrow> int list \<Rightarrow> int list" where
  "pad_token_ids h token_ids =
     (let cur_token_ids_length = int (length token_ids)
      in if cur_token_ids_length > max_length h then token_ids
         else if cur_token_ids_length < max_length h
         then token_ids @ replicate (nat (max_length h - cur_token_ids_length))
                            (TokenToId (tokenizer h) ''<pad>'')
         else token_ids)"

text \<open>
  \<^verbatim>\<open>torch::from_blob(data, n, options)\<close> is read as the tensor of the first \<open>n\<close> elements
  of the buffer. The width of the elements in memory and the lifetime of the buffer are
  not part of this model: a row content stated through \<open>from_blob\<close> is the content of this
  view, and the statements below that count rows or tell whose row a row is do not depend
  on it.
\<close>

definition from_blob :: "int list \<Rightarrow> int \<Rightarrow> int list" where
  "from_blob data n = take (nat n) data"

text \<open>\<^verbatim>\<open>SetResponse\<close> on the response stored under the id; line 79 has stored one.\<close>

definition set_response :: "string \<Rightarrow> int \<Rightarrow> string \<Rightarrow> string \<Rightarrow> string \<Rightarrow>
    (string \<rightharpoonup> InferenceResponse) \<Rightarrow> (string \<rightharpoonup> InferenceResponse)" where
  "set_response rid new_code k v m rs = rs(rid := map_option (SetResponse new_code k v m) (rs rid))"

text \<open>The body of the loop, lines 78-134.\<close>

definition preprocess_request ::
    "PayloadType \<Rightarrow> BertCppHandler \<Rightarrow> preprocess_state \<Rightarrow> InferenceRequest \<Rightarrow> preprocess_state" where
  "preprocess_request pt h st request =
     (let rid = request_id request;
          st1 = st\<lparr>responses := (responses st)(rid \<mapsto> new_InferenceResponse rid),
                   aggregate := append_id (aggregate st) rid\<rparr>
      in case find_payload pt request of
           (Some data, Some dtype) \<Rightarrow>
             (case Encode (tokenizer h) (VectorToStr data) of
                Inr token_ids \<Rightarrow>
                  st1\<lparr>logs := logs st1 @
                         (if int (length token_ids) > max_length h
                          then [PromptTooLong (int (length token_ids)) (max_length h)] else []),
                      tokens_ivalue := tokens_ivalue st1 @
                         [from_blob (pad_token_ids h token_ids) (max_length h)],
                      idx_map := map_assign (idx_map st1) (idx st1) rid,
                      idx := idx st1 + 1\<rparr>
              | Inl runtime_error \<Rightarrow>
                  st1\<lparr>logs := logs st1 @ [FailedToLoadTensor rid runtime_error],
                      responses := set_response rid 500 ''data_type'' (kDATA_TYPE_STRING pt)
                         ''runtime_error, failed to load tensor'' (responses st1)\<rparr>
              | Inl c10_Error \<Rightarrow>
                  st1\<lparr>logs := logs st1 @ [FailedToLoadTensor rid c10_Error],
                      responses := set_response rid 500 ''data_type'' (kDATA_TYPE_STRING pt)
                         ''c10 error, failed to load tensor'' (responses st1)\<rparr>)
         | _ \<Rightarrow>
             st1\<lparr>logs := logs st1 @ [EmptyPayloadForRequest rid],
                 responses := set_response rid 500 ''data_type'' (kCONTENT_TYPE_TEXT pt)
                    ''Empty payload'' (responses st1)\<rparr>)"

fun preprocess_loop ::
    "PayloadType \<Rightarrow> BertCppHandler \<Rightarrow> preprocess_state \<Rightarrow> InferenceRequest list \<Rightarrow> preprocess_state" where
  "preprocess_loop pt h st [] = st"
| "preprocess_loop pt h st (request # rest) =
     preprocess_loop pt h (preprocess_request pt h st request) rest"

text \<open>A tensor made by \<^verbatim>\<open>from_blob(buffer, {rows, columns})\<close>: the shape it is declared
  with, and the buffer it points to.\<close>

record token_tensor =
  sizes :: "int \<times> int"
  blob :: "int list list"

record preprocess_result =
  tokens :: token_tensor \<comment> \<open>\<^verbatim>\<open>batch_ivalue[0]\<close>\<close>
  attention_mask :: "int list list" \<comment> \<open>\<^verbatim>\<open>batch_ivalue[1]\<close>, all ones\<close>
  state :: preprocess_state

definition start_state ::
    "string \<times> (uint8_t \<times> string) list \<Rightarrow> (string \<rightharpoonup> InferenceResponse) \<Rightarrow> preprocess_state" where
  "start_state idx_to_req_id response_batch =
     \<lparr>idx = 0, aggregate = fst idx_to_req_id, idx_map = snd idx_to_req_id,
      tokens_ivalue = [], responses = response_batch, logs = []\<rparr>"

text \<open>
  Lines 73-76 and 136-139. \<^verbatim>\<open>torch::ones\<close> raises \<^verbatim>\<open>c10::Error\<close> on a negative
  dimension, before the loop and outside every handler. Both tensors of the result are
  declared with \<^verbatim>\<open>request_batch->size()\<close> rows and \<^verbatim>\<open>max_length_\<close> columns.
\<close>

definition Preprocess ::
    "PayloadType \<Rightarrow> BertCppHandler \<Rightarrow> string \<times> (uint8_t \<times> string) list \<Rightarrow>
     InferenceRequest list \<Rightarrow> (string \<rightharpoonup> InferenceResponse) \<Rightarrow> exn + preprocess_result" where
  "Preprocess pt h idx_to_req_id request_batch response_batch =
     (if max_length h < 0 then Inl c10_Error
      else
        let st = preprocess_loop pt h (start_state idx_to_req_id response_batch) request_batch
        in Inr \<lparr>tokens = \<lparr>sizes = (int (length request_batch), max_length h),
                           blob = tokens_ivalue st\<rparr>,
                attention_mask = replicate (length request_batch)
                                   (replicate (nat (max_length h)) 1),
                state = st\<rparr>)"

subsection \<open>\<^verbatim>\<open>Postprocess\<close>\<close>

text \<open>Modelled from the spec: \<^verbatim>\<open>torch::argmax\<close> is the index of the largest entry of the row,
  the first one among equals. Scores are taken from any linear order.\<close>

fun argmax_from :: "nat \<Rightarrow> 'a::linorder \<Rightarrow> nat \<Rightarrow> 'a list \<Rightarrow> nat" where
  "argmax_from best_i best i [] = best_i"
| "argmax_from best_i best i (x # xs) =
     (if best < x then argmax_from i x (Suc i) xs else argmax_from best_i best (Suc i) xs)"

text \<open>
  Lines 172-174 and 179: the engine output is a matrix, one row per batch row. Indexing
  past the last row and \<^verbatim>\<open>argmax\<close> over an empty row raise \<^verbatim>\<open>c10::Error\<close>.
\<close>

definition decode_row :: "BertCppHandler \<Rightarrow> 'a::linorder list list \<Rightarrow> uint8_t \<Rightarrow> failure + string" where
  "decode_row h data i =
     (if length data \<le> unat i then Inl (Throw c10_Error)
      else (case data ! unat i of
              [] \<Rightarrow> Inl (Throw c10_Error)
            | x # xs \<Rightarrow>
                (let y_hat = argmax_from 0 x 1 xs;
                     predicted_idx = to_string (int y_hat)
                 in (case GetJsonValue (mapping_json h) predicted_idx of
                       Inl f \<Rightarrow> Inl f
                     | Inr v \<Rightarrow> asString v))))"

text \<open>A response is reached through \<^verbatim>\<open>operator[]\<close> of the response batch, which yields
  a null pointer for an absent id; \<^verbatim>\<open>SetResponse\<close> is then called through it.\<close>

definition write_response :: "string \<Rightarrow> int \<Rightarrow> string \<Rightarrow> string \<Rightarrow> string \<Rightarrow>
    (string \<rightharpoonup> InferenceResponse) \<Rightarrow> failure + (string \<rightharpoonup> InferenceResponse)" where
  "write_response rid new_code k v m rs =
     (case rs rid of
        None \<Rightarrow> Inl NullDereference
      | Some r \<Rightarrow> Inr (rs(rid \<mapsto> SetResponse new_code k v m r)))"

text \<open>The body of the loop, lines 171-195.\<close>

definition postprocess_row ::
    "PayloadType \<Rightarrow> BertCppHandler \<Rightarrow> 'a::linorder list list \<Rightarrow> (string \<rightharpoonup> InferenceResponse) \<Rightarrow>
     uint8_t \<times> string \<Rightarrow> failure + (string \<rightharpoonup> InferenceResponse)" where
  "postprocess_row pt h data rs kv =
     (case decode_row h data (fst kv) of
        Inr label \<Rightarrow> write_response (snd kv) 200 ''data_type'' (kDATA_TYPE_STRING pt) label rs
      | Inl (Throw runtime_error) \<Rightarrow>
          write_response (snd kv) 500 ''data_type'' (kDATA_TYPE_STRING pt)
            ''runtime_error, failed to postprocess tensor'' rs
      | Inl (Throw c10_Error) \<Rightarrow>
          write_response (snd kv) 500 ''data_type'' (kDATA_TYPE_STRING pt)
            ''c10 error, failed to postprocess tensor'' rs
      | Inl f \<Rightarrow> Inl f)"

fun Postprocess ::
    "PayloadType \<Rightarrow> BertCppHandler \<Rightarrow> 'a::linorder list list \<Rightarrow> (uint8_t \<times> string) list \<Rightarrow>
     (string \<rightharpoonup> InferenceResponse) \<Rightarrow> failure + (string \<rightharpoonup> InferenceResponse)" where
  "Postprocess pt h data [] rs = Inr rs"
| "Postprocess pt h data (kv # rest) rs =
     (case postprocess_row pt h data rs kv of
        Inl f \<Rightarrow> Inl f
      | Inr rs' \<Rightarrow> Postprocess pt h data rest rs')"

subsection \<open>Derived notions used in the statements\<close>

text \<open>The row a request adds to \<open>tokens_ivalue\<close>, if it adds one: its payload is found
  and the tokenizer returns.\<close>

definition encode_request :: "PayloadType \<Rightarrow> BertCppHandler \<Rightarrow> InferenceRequest \<Rightarrow> int list option" where
  "encode_request pt h request =
     (case find_payload pt request of
        (Some data, Some dtype) \<Rightarrow>
          (case Encode (tokenizer h) (VectorToStr data) of
             Inr token_ids \<Rightarrow> Some (from_blob (pad_token_ids h token_ids) (max_length h))
           | Inl e \<Rightarrow> None)
      | _ \<Rightarrow> None)"

definition encoded :: "PayloadType \<Rightarrow> BertCppHandler \<Rightarrow> InferenceRequest list \<Rightarrow> InferenceRequest list" where
  "encoded pt h rs = filter (\<lambda>r. encode_request pt h r \<noteq> None) rs"

text \<open>The response a request is left with when its turn of the loop ends.\<close>

definition left_response :: "PayloadType \<Rightarrow> BertCppHandler \<Rightarrow> InferenceRequest \<Rightarrow> InferenceResponse" where
  "left_response pt h request =
     (let r = new_InferenceResponse (request_id request)
      in case find_payload pt request of
           (Some data, Some dtype) \<Rightarrow>
             (case Encode (tokenizer h) (VectorToStr data) of
                Inr token_ids \<Rightarrow> r
              | Inl runtime_error \<Rightarrow>
                  SetResponse 500 ''data_type'' (kDATA_TYPE_STRING pt)
                    ''runtime_error, failed to load tensor'' r
              | Inl c10_Error \<Rightarrow>
                  SetResponse 500 ''data_type'' (kDATA_TYPE_STRING pt)
                    ''c10 error, failed to load tensor'' r)
         | _ \<Rightarrow> SetResponse 500 ''data_type'' (kCONTENT_TYPE_TEXT pt) ''Empty payload'' r)"

text \<open>The tracker after a run of successful encodings: \<^verbatim>\<open>second[idx++] = id\<close> for each
  id in turn.\<close>

fun assign_rows :: "(uint8_t \<times> string) list \<Rightarrow> uint8_t \<Rightarrow> string list \<Rightarrow> (uint8_t \<times> string) list" where
  "assign_rows m i [] = m"
| "assign_rows m i (rid # rids) = assign_rows (map_assign m i rid) (i + 1) rids"

text \<open>Among \<open>n\<close> encodings, the last one that gets the same 8-bit index as the \<open>j\<close>-th.\<close>

definition last_same :: "nat \<Rightarrow> nat \<Rightarrow> nat" where
  "last_same n j = j + 256 * ((n - 1 - j) div 256)"

text \<open>A request has a payload key pair when the parameter and its header are both there.\<close>

definition has_pair :: "InferenceRequest \<Rightarrow> string \<Rightarrow> string \<Rightarrow> bool" where
  "has_pair request parameter_name header_name \<longleftrightarrow>
     parameters request parameter_name \<noteq> None \<and> headers request header_name \<noteq> None"

text \<open>Following the spec's words: the ids of a padded row before the first pad token.\<close>

definition unpad :: "int \<Rightarrow> int list \<Rightarrow> int list" where
  "unpad pad_id row = takeWhile (\<lambda>t. t \<noteq> pad_id) row"

text \<open>Following the spec's words: ids joined by commas.\<close>

fun join_ids :: "string list \<Rightarrow> string" where
  "join_ids [] = []"
| "join_ids [rid] = rid"
| "join_ids (rid # rids) = rid @ '','' @ join_ids rids"

text \<open>The keys \<^verbatim>\<open>LoadModel\<close> reads from the config, in the order it reads them.\<close>

definition required_keys :: "string list" where
  "required_keys = [''max_length'', ''tokenizer_path'', ''model_so_path'']"

text \<open>Every step of \<^verbatim>\<open>LoadModel\<close> that runs before the lookup of the key returns.\<close>

definition reaches_lookup :: "environment \<Rightarrow> LoadModelRequest \<Rightarrow> dynamic \<Rightarrow> string \<Rightarrow> bool" where
  "reaches_lookup env load_model_request config key \<longleftrightarrow>
     \<not> isl (GetTorchDevice env load_model_request) \<and>
     \<not> isl (LoadJsonFile env (mapFilePath load_model_request)) \<and>
     (key \<noteq> ''max_length'' \<longrightarrow>
        \<not> isl (read_max_length env config) \<and>
        (key \<noteq> ''tokenizer_path'' \<longrightarrow>
           \<not> isl (load_tokenizer env (model_dir load_model_request) config)))"

subsection \<open>Example values\<close>

definition example_PayloadType :: PayloadType where
  "example_PayloadType =
     \<lparr>kPARAMETER_NAME_DATA = ''data'', kHEADER_NAME_DATA_TYPE = ''data_dtype'',
      kPARAMETER_NAME_BODY = ''body'', kHEADER_NAME_BODY_TYPE = ''body_dtype'',
      kCONTENT_TYPE_TEXT = ''text'', kDATA_TYPE_STRING = ''string''\<rparr>"

text \<open>A tokenizer that gives each byte its code, fails on the text \<open>boom\<close>, and pads
  with 0.\<close>

definition example_tokenizer :: Tokenizer where
  "example_tokenizer =
     \<lparr>Encode = (\<lambda>s. if s = ''boom'' then Inl runtime_error else Inr (map (\<lambda>c. int (of_char c)) s)),
      TokenToId = (\<lambda>t. 0)\<rparr>"

definition example_handler :: "int \<Rightarrow> BertCppHandler" where
  "example_handler n =
     \<lparr>mapping_json = DObject [(''0'', DString ''negative''), (''1'', DString ''positive'')],
      config_json = DObject [], max_length = n, tokenizer = example_tokenizer\<rparr>"

definition example_request :: "string \<Rightarrow> string \<Rightarrow> InferenceRequest" where
  "example_request rid text =
     \<lparr>request_id = rid, headers = [''data_dtype'' \<mapsto> ''string''],
      parameters = [''data'' \<mapsto> text]\<rparr>"

definition request_without_payload :: "string \<Rightarrow> InferenceRequest" where
  "request_without_payload rid = \<lparr>request_id = rid, headers = Map.empty, parameters = Map.empty\<rparr>"

text \<open>The data parameter without its header, next to a complete body pair.\<close>

definition request_without_data_header :: "string \<Rightarrow> InferenceRequest" where
  "request_without_data_header rid =
     \<lparr>request_id = rid, headers = [''body_dtype'' \<mapsto> ''string''],
      parameters = [''data'' \<mapsto> ''hi'', ''body'' \<mapsto> ''yo'']\<rparr>"

definition numbered_request :: "nat \<Rightarrow> InferenceRequest" where
  "numbered_request k = example_request (to_string (int k)) ''hi''"

definition example_batch :: "InferenceRequest list" where
  "example_batch =
     [example_request ''a'' ''hi'', request_without_payload ''b'', example_request ''c'' ''boom'',
      example_request ''d'' ''yo'']"

definition example_pre :: preprocess_result where
  "example_pre =
     projr (Preprocess example_PayloadType (example_handler 4) ([], []) example_batch Map.empty)"

definition example_output :: "int list list" where
  "example_output = [[1, 3], [5, 2]]"

definition example_post :: "string \<rightharpoonup> InferenceResponse" where
  "example_post =
     projr (Postprocess example_PayloadType (example_handler 4) example_output
       (idx_map (state example_pre)) (responses (state example_pre)))"

text \<open>Following the spec's words: a request with a valid payload has one of the two
  key pairs.\<close>

definition payload_valid :: "PayloadType \<Rightarrow> InferenceRequest \<Rightarrow> bool" where
  "payload_valid pt request \<longleftrightarrow>
     has_pair request (kPARAMETER_NAME_DATA pt) (kHEADER_NAME_DATA_TYPE pt) \<or>
     has_pair request (kPARAMETER_NAME_BODY pt) (kHEADER_NAME_BODY_TYPE pt)"

text \<open>A prompt of three tokens for a handler whose \<open>max_length\<close> is 2.\<close>

definition overlong_result :: "exn + preprocess_result" where
  "overlong_result =
     Preprocess example_PayloadType (example_handler 2) ([], []) [example_request ''a'' ''abc'']
       Map.empty"

definition no_payload_result :: "exn + preprocess_result" where
  "no_payload_result =
     Preprocess example_PayloadType (example_handler 4) ([], []) [request_without_payload ''b'']
       Map.empty"

text \<open>One request without payload, one whose tokenization fails.\<close>

definition failed_batch :: "InferenceRequest list" where
  "failed_batch = [request_without_payload ''b'', example_request ''c'' ''boom'']"

definition failed_result :: "exn + preprocess_result" where
  "failed_result =
     Preprocess example_PayloadType (example_handler 4) ([], []) failed_batch Map.empty"

definition fallback_batch :: "InferenceRequest list" where
  "fallback_batch = [request_without_data_header ''x'', example_request ''y'' ''hi'']"

definition fallback_pre :: preprocess_result where
  "fallback_pre =
     projr (Preprocess example_PayloadType (example_handler 4) ([], []) fallback_batch Map.empty)"

text \<open>257 requests that all encode.\<close>

definition wrap_batch :: "InferenceRequest list" where
  "wrap_batch = map numbered_request [0..<257]"

definition wrap_pre :: preprocess_result where
  "wrap_pre =
     projr (Preprocess example_PayloadType (example_handler 4) ([], []) wrap_batch Map.empty)"

text \<open>A model directory whose config has no \<open>model_so_path\<close>.\<close>

definition example_load_request :: LoadModelRequest where
  "example_load_request = \<lparr>model_dir = ''m'', model_name = ''bert'', gpu_id = -1\<rparr>"

definition example_config :: dynamic where
  "example_config =
     DObject [(''max_length'', DInt 4), (''tokenizer_path'', DString ''tokenizer.json'')]"

definition example_environment :: environment where
  "example_environment =
     \<lparr>GetTorchDevice = (\<lambda>r. Inr \<lparr>is_cuda = False, str = ''cpu''\<rparr>),
      readFile = (\<lambda>p. if p = ''m/index_to_name.json'' then Some ''labels''
                       else if p = ''m/config.json'' then Some ''config''
                       else if p = ''m/tokenizer.json'' then Some ''tokenizer''
                       else None),
      parseJson = (\<lambda>c. if c = ''labels'' then Inr (DObject [(''0'', DString ''negative'')])
                        else if c = ''config'' then Inr example_config
                        else if c = ''tokenizer'' then Inr (DString ''blob'')
                        else Inl runtime_error),
      str_to_int = (\<lambda>s. Inl runtime_error),
      FromBlobJSON = (\<lambda>b. Inr example_tokenizer),
      open_runner = (\<lambda>r. None)\<rparr>"

text \<open>The example model directory with a tokenizer file that holds a JSON object.\<close>

definition object_tokenizer_environment :: environment where
  "object_tokenizer_environment =
     example_environment
       \<lparr>parseJson := (\<lambda>c. if c = ''labels'' then Inr (DObject [(''0'', DString ''negative'')])
                          else if c = ''config'' then Inr example_config
                          else if c = ''tokenizer'' then Inr (DObject [])
                          else Inl runtime_error)\<rparr>"

text \<open>The example model directory with a complete config.\<close>

definition complete_config :: dynamic where
  "complete_config =
     DObject [(''max_length'', DInt 4), (''tokenizer_path'', DString ''tokenizer.json''),
              (''model_so_path'', DString ''model.so'')]"

definition complete_environment :: environment where
  "complete_environment =
     example_environment
       \<lparr>parseJson := (\<lambda>c. if c = ''labels'' then Inr (DObject [(''0'', DString ''negative'')])
                          else if c = ''config'' then Inr complete_config
                          else if c = ''tokenizer'' then Inr (DString ''blob'')
                          else Inl runtime_error)\<rparr>"

section \<open>Lemmas about preprocessing and postprocessing\<close>

subsection \<open>One turn of the preprocessing loop, and the whole loop\<close>

lemma step_tokens:
  "tokens_ivalue (preprocess_request pt h st r) =
     tokens_ivalue st @ (case encode_request pt h r of None \<Rightarrow> [] | Some row \<Rightarrow> [row])"
  by (auto simp: preprocess_request_def encode_request_def Let_def split: prod.splits option.splits sum.splits exn.splits)

lemma step_idx:
  "idx (preprocess_request pt h st r) =
     (case encode_request pt h r of None \<Rightarrow> idx st | Some row \<Rightarrow> idx st + 1)"
  by (auto simp: preprocess_request_def encode_request_def Let_def split: prod.splits option.splits sum.splits exn.splits)

lemma step_idx_map:
  "idx_map (preprocess_request pt h st r) =
     (case encode_request pt h r of None \<Rightarrow> idx_map st
      | Some row \<Rightarrow> map_assign (idx_map st) (idx st) (request_id r))"
  by (auto simp: preprocess_request_def encode_request_def Let_def split: prod.splits option.splits sum.splits exn.splits)

lemma step_aggregate:
  "aggregate (preprocess_request pt h st r) = append_id (aggregate st) (request_id r)"
  by (auto simp: preprocess_request_def Let_def split: prod.splits option.splits sum.splits exn.splits)

lemma step_responses:
  "responses (preprocess_request pt h st r) =
     (responses st)(request_id r \<mapsto> left_response pt h r)"
  by (auto simp: preprocess_request_def left_response_def set_response_def Let_def split: prod.splits option.splits sum.splits exn.splits)

lemma loop_tokens:
  "tokens_ivalue (preprocess_loop pt h st rs) =
     tokens_ivalue st @ List.map_filter (encode_request pt h) rs"
  by (induction rs arbitrary: st) (auto simp: step_tokens List.map_filter_simps split: option.splits)

lemma loop_aggregate:
  "aggregate (preprocess_loop pt h st rs) = foldl append_id (aggregate st) (map request_id rs)"
  by (induction rs arbitrary: st) (auto simp: step_aggregate)

lemma loop_idx_map:
  "idx_map (preprocess_loop pt h st rs) =
     assign_rows (idx_map st) (idx st) (map request_id (encoded pt h rs))"
  by (induction rs arbitrary: st) (auto simp: step_idx_map step_idx encoded_def split: option.splits)

lemma loop_idx:
  "idx (preprocess_loop pt h st rs) = idx st + of_nat (length (encoded pt h rs))"
  by (induction rs arbitrary: st) (auto simp: step_idx encoded_def split: option.splits)

lemma loop_responses_other:
  "rid \<notin> request_id ` set rs \<Longrightarrow> responses (preprocess_loop pt h st rs) rid = responses st rid"
  by (induction rs arbitrary: st) (auto simp: step_responses)

lemma loop_responses:
  "distinct (map request_id rs) \<Longrightarrow> r \<in> set rs \<Longrightarrow>
     responses (preprocess_loop pt h st rs) (request_id r) = Some (left_response pt h r)"
  by (induction rs arbitrary: st) (auto simp: step_responses loop_responses_other)

lemma map_of_map_assign: "map_of (map_assign m k v) = (map_of m)(k \<mapsto> v)"
  by (induction m) (auto simp: fun_eq_iff)

lemma keys_map_assign: "fst ` set (map_assign m k v) = insert k (fst ` set m)"
  by (induction m) auto

lemma values_map_assign: "snd ` set (map_assign m k v) \<subseteq> insert v (snd ` set m)"
  by (induction m) auto

lemma sorted_map_assign:
  "sorted_wrt (<) (map fst m) \<Longrightarrow> sorted_wrt (<) (map fst (map_assign m k v))"
  by (induction m) (auto simp: keys_map_assign)

lemma assign_rows_snoc:
  "assign_rows m i (rids @ [rid]) = map_assign (assign_rows m i rids) (i + of_nat (length rids)) rid"
  by (induction rids arbitrary: m i) (auto simp: algebra_simps)

lemma keys_assign_rows:
  "fst ` set (assign_rows m i rids) = fst ` set m \<union> (\<lambda>j. i + of_nat j) ` {..<length rids}"
proof (induction rids rule: rev_induct)
  case Nil
  then show ?case by simp
next
  case (snoc rid rids)
  have "{..<Suc (length rids)} = insert (length rids) {..<length rids}" by auto
  with snoc show ?case by (simp add: assign_rows_snoc keys_map_assign)
qed

lemma sorted_assign_rows:
  "sorted_wrt (<) (map fst m) \<Longrightarrow> sorted_wrt (<) (map fst (assign_rows m i rids))"
  by (induction rids arbitrary: m i) (auto simp: sorted_map_assign)

lemma values_assign_rows: "snd ` set (assign_rows m i rids) \<subseteq> snd ` set m \<union> set rids"
proof (induction rids arbitrary: m i)
  case Nil
  then show ?case by simp
next
  case (Cons rid rids)
  have "snd ` set (map_assign m i rid) \<subseteq> insert rid (snd ` set m)" by (rule values_map_assign)
  with Cons [of "map_assign m i rid" "i + 1"] show ?case by auto
qed

lemma word8_of_nat_eq: "(word_of_nat a :: uint8_t) = word_of_nat b \<longleftrightarrow> a mod 256 = b mod 256"
  by (simp add: word_of_nat_eq_iff take_bit_eq_mod)

lemma div_256_pred:
  fixes d :: nat
  assumes "d mod 256 \<noteq> 0"
  shows "(d - 1) div 256 = d div 256"
proof -
  define q r where "q = d div 256" and "r = d mod 256"
  have d: "d = 256 * q + r" unfolding q_def r_def by simp
  have r: "r < 256" "r \<noteq> 0" using assms unfolding r_def by simp_all
  have "256 * q \<le> d - 1" using d r by linarith
  moreover have "d - 1 < 256 * Suc q" using d r by simp
  ultimately have "(d - 1) div 256 = q" by (rule div_nat_eqI)
  then show ?thesis by (simp add: q_def)
qed

lemma last_same_step:
  assumes "j \<le> n"
  shows "last_same (Suc n) j = (if j mod 256 = n mod 256 then n else last_same n j)"
proof (cases "j mod 256 = n mod 256")
  case True
  with assms have "256 dvd n - j"
    using mod_eq_dvd_iff_nat [of j n 256] by simp
  then have "256 * ((n - j) div 256) = n - j" by simp
  with assms True show ?thesis by (simp add: last_same_def)
next
  case False
  with assms have lt: "j < n" by (cases "j = n") auto
  have "\<not> 256 dvd n - j"
    using False assms mod_eq_dvd_iff_nat [of j n 256] by simp
  then have "(n - j) mod 256 \<noteq> 0" by (simp add: dvd_eq_mod_eq_0)
  then have "(n - j - 1) div 256 = (n - j) div 256" by (rule div_256_pred)
  moreover have "n - 1 - j = n - j - 1" by simp
  ultimately show ?thesis using False by (simp add: last_same_def)
qed

lemma last_same_less:
  assumes "j < n"
  shows "last_same n j < n"
proof -
  have "256 * ((n - 1 - j) div 256) \<le> n - 1 - j" by simp
  with assms show ?thesis unfolding last_same_def by linarith
qed

lemma map_of_assign_rows:
  "j < length rids \<Longrightarrow>
     map_of (assign_rows m i rids) (i + of_nat j) = Some (rids ! last_same (length rids) j)"
proof (induction rids rule: rev_induct)
  case Nil
  then show ?case by simp
next
  case (snoc rid rids)
  let ?n = "length rids"
  show ?case
  proof (cases "j mod 256 = ?n mod 256")
    case True
    then have "i + word_of_nat j = i + (word_of_nat ?n :: uint8_t)"
      by (simp add: word8_of_nat_eq)
    moreover have "last_same (Suc ?n) j = ?n"
      using snoc.prems True by (simp add: last_same_step)
    ultimately show ?thesis
      by (simp add: assign_rows_snoc map_of_map_assign)
  next
    case False
    then have neq: "i + word_of_nat j \<noteq> i + (word_of_nat ?n :: uint8_t)"
      by (simp add: word8_of_nat_eq)
    from False snoc.prems have lt: "j < ?n"
      by (cases "j = ?n") auto
    have ls: "last_same (Suc ?n) j = last_same ?n j"
      using snoc.prems False by (simp add: last_same_step)
    have "last_same ?n j < ?n" using lt by (rule last_same_less)
    with snoc.IH [OF lt] neq ls show ?thesis
      by (simp add: assign_rows_snoc map_of_map_assign nth_append)
  qed
qed

lemma card_word8_image: "card ((word_of_nat :: nat \<Rightarrow> uint8_t) ` {..<n}) = min n 256"
proof (cases "n \<le> 256")
  case True
  have "inj_on (word_of_nat :: nat \<Rightarrow> uint8_t) {..<n}"
    using True by (auto simp: inj_on_def word8_of_nat_eq)
  then show ?thesis using True by (simp add: card_image)
next
  case False
  have "(word_of_nat :: nat \<Rightarrow> uint8_t) ` {..<n} = UNIV"
  proof -
    have "w \<in> (word_of_nat :: nat \<Rightarrow> uint8_t) ` {..<n}" for w :: uint8_t
    proof -
      have "unat w < 256" using unsigned_less [of w, where ?'a = nat] by simp
      with False have "unat w \<in> {..<n}" by simp
      moreover have "word_of_nat (unat w) = w" by simp
      ultimately show ?thesis by (metis imageI)
    qed
    then show ?thesis by auto
  qed
  then show ?thesis using False by (simp add: card_word)
qed

lemma length_assign_rows_fresh: "length (assign_rows [] 0 rids) = min (length rids) 256"
proof -
  have s: "sorted_wrt (<) (map fst (assign_rows [] 0 rids))"
    by (rule sorted_assign_rows) simp
  then have "distinct (map fst (assign_rows [] 0 rids))"
    by (simp add: strict_sorted_iff)
  then have "length (assign_rows [] 0 rids) = card (fst ` set (assign_rows [] 0 rids))"
    by (metis distinct_card length_map set_map)
  also have "\<dots> = min (length rids) 256"
    by (simp add: keys_assign_rows card_word8_image)
  finally show ?thesis .
qed

lemma postprocess_row_other:
  "postprocess_row pt h data rs kv = Inr rs1 \<Longrightarrow> rid \<noteq> snd kv \<Longrightarrow> rs1 rid = rs rid"
  by (auto simp: postprocess_row_def write_response_def
           split: sum.splits failure.splits exn.splits option.splits)

lemma Postprocess_other:
  "Postprocess pt h data kvs rs = Inr rs' \<Longrightarrow> rid \<notin> snd ` set kvs \<Longrightarrow> rs' rid = rs rid"
proof (induction kvs arbitrary: rs)
  case Nil
  then show ?case by simp
next
  case (Cons kv rest)
  from Cons.prems(1) obtain rs2 where
    row: "postprocess_row pt h data rs kv = Inr rs2" and
    tail: "Postprocess pt h data rest rs2 = Inr rs'"
    by (auto split: sum.splits)
  from Cons.prems(2) have "rid \<noteq> snd kv" "rid \<notin> snd ` set rest" by auto
  with Cons.IH [OF tail] postprocess_row_other [OF row] show ?case by simp
qed

lemma Preprocess_Inr:
  "Preprocess pt h tr rs rb = Inr pre \<Longrightarrow>
     0 \<le> max_length h \<and> state pre = preprocess_loop pt h (start_state tr rb) rs \<and>
     tokens pre = \<lparr>sizes = (int (length rs), max_length h),
                    blob = tokens_ivalue (preprocess_loop pt h (start_state tr rb) rs)\<rparr>"
  by (auto simp: Preprocess_def Let_def split: if_splits)

lemma Preprocess_returns:
  "0 \<le> max_length h \<Longrightarrow> \<exists>pre. Preprocess pt h tr rs rb = Inr pre"
  by (simp add: Preprocess_def Let_def)

lemma tracker_fresh:
  assumes "Preprocess pt h (first, []) rs rb = Inr pre"
  shows "idx_map (state pre) = assign_rows [] 0 (map request_id (encoded pt h rs))"
  using Preprocess_Inr [OF assms] by (simp add: loop_idx_map start_state_def)

subsection \<open>The example batch, evaluated\<close>

lemmas example_defs =
  Preprocess_def Let_def example_handler_def example_batch_def start_state_def
  preprocess_request_def find_payload_def example_request_def request_without_payload_def
  request_without_data_header_def example_PayloadType_def example_tokenizer_def VectorToStr_def
  append_id_def set_response_def pad_token_ids_def from_blob_def

lemma example_pre_Inr:
  "Preprocess example_PayloadType (example_handler 4) ([], []) example_batch Map.empty =
     Inr example_pre"
  by (simp add: example_pre_def Preprocess_def Let_def example_handler_def)

lemma example_pre_idx_map: "idx_map (state example_pre) = [(0, ''a''), (1, ''d'')]"
  by (simp add: example_pre_def example_defs)

lemma example_pre_responses:
  "responses (state example_pre) ''a'' = Some (new_InferenceResponse ''a'')"
  "responses (state example_pre) ''d'' = Some (new_InferenceResponse ''d'')"
  by (simp_all add: example_pre_def example_defs)

lemmas postprocess_defs =
  postprocess_row_def decode_row_def example_output_def example_handler_def to_string_def
  string_of_nat.simps digit_char_def write_response_def

lemma example_post_Inr:
  "Postprocess example_PayloadType (example_handler 4) example_output
     (idx_map (state example_pre)) (responses (state example_pre)) = Inr example_post"
  by (simp add: example_post_def example_pre_idx_map example_pre_responses postprocess_defs)

subsection \<open>Rows\<close>

lemma row_width:
  "0 \<le> max_length h \<Longrightarrow> length (from_blob (pad_token_ids h token_ids) (max_length h)) = nat (max_length h)"
  by (auto simp: from_blob_def pad_token_ids_def Let_def)

lemma short_row:
  "int (length token_ids) < max_length h \<Longrightarrow>
     from_blob (pad_token_ids h token_ids) (max_length h) =
       token_ids @ replicate (nat (max_length h) - length token_ids) (TokenToId (tokenizer h) ''<pad>'')"
  by (auto simp: from_blob_def pad_token_ids_def Let_def nat_diff_distrib)

subsection \<open>Requests that get no row\<close>

lemma untracked:
  assumes pre: "Preprocess pt h (first, []) request_batch response_batch = Inr pre"
      and ids: "distinct (map request_id request_batch)"
      and r: "r \<in> set request_batch"
      and none: "encode_request pt h r = None"
  shows "request_id r \<notin> snd ` set (idx_map (state pre))"
proof
  assume "request_id r \<in> snd ` set (idx_map (state pre))"
  then have "request_id r \<in> set (map request_id (encoded pt h request_batch))"
    using values_assign_rows [of "[]" 0 "map request_id (encoded pt h request_batch)"]
    unfolding tracker_fresh [OF pre] by auto
  then obtain r' where r': "r' \<in> set request_batch" "encode_request pt h r' \<noteq> None"
      "request_id r' = request_id r"
    by (auto simp: encoded_def)
  from ids have "inj_on request_id (set request_batch)" by (simp add: distinct_map)
  with r r' have "r' = r" by (auto dest: inj_onD)
  with r' none show False by simp
qed

lemma incomplete_payload:
  assumes pre: "Preprocess pt h (first, []) request_batch response_batch = Inr pre"
      and ids: "distinct (map request_id request_batch)"
      and r: "r \<in> set request_batch"
      and inc: "fst (find_payload pt r) = None \<or> snd (find_payload pt r) = None"
  shows "responses (state pre) (request_id r) =
           Some (SetResponse 500 ''data_type'' (kCONTENT_TYPE_TEXT pt) ''Empty payload''
                   (new_InferenceResponse (request_id r)))"
    and "encode_request pt h r = None"
    and "request_id r \<notin> snd ` set (idx_map (state pre))"
proof -
  from inc show none: "encode_request pt h r = None"
    by (auto simp: encode_request_def split: prod.splits option.splits)
  from inc have "left_response pt h r =
      SetResponse 500 ''data_type'' (kCONTENT_TYPE_TEXT pt) ''Empty payload''
        (new_InferenceResponse (request_id r))"
    by (auto simp: left_response_def Let_def split: prod.splits option.splits)
  then show "responses (state pre) (request_id r) =
           Some (SetResponse 500 ''data_type'' (kCONTENT_TYPE_TEXT pt) ''Empty payload''
                   (new_InferenceResponse (request_id r)))"
    using Preprocess_Inr [OF pre] loop_responses [OF ids r] by simp
  from pre ids r none show "request_id r \<notin> snd ` set (idx_map (state pre))"
    by (rule untracked)
qed

subsection \<open>The aggregate id string\<close>

lemma foldl_append_id:
  "first \<noteq> [] \<Longrightarrow> foldl append_id first rids = first @ concat (map (\<lambda>rid. '','' @ rid) rids)"
  by (induction rids arbitrary: first) (auto simp: append_id_def)

lemma join_ids_Cons: "join_ids (rid # rids) = rid @ concat (map (\<lambda>rid. '','' @ rid) rids)"
  by (induction rids arbitrary: rid) auto

lemma foldl_append_id_join:
  "(rids \<noteq> [] \<longrightarrow> hd rids \<noteq> []) \<Longrightarrow> foldl append_id [] rids = join_ids rids"
proof (cases rids)
  case Nil
  then show ?thesis by simp
next
  case (Cons rid rest)
  assume "rids \<noteq> [] \<longrightarrow> hd rids \<noteq> []"
  with Cons have "rid \<noteq> []" by simp
  then have "foldl append_id rid rest = rid @ concat (map (\<lambda>rid. '','' @ rid) rest)"
    by (rule foldl_append_id)
  with Cons show ?thesis by (simp add: join_ids_Cons append_id_def del: join_ids.simps)
qed

subsection \<open>More than 256 rows\<close>

lemma last_same_greater:
  assumes "j + 256 < n"
  shows "j < last_same n j"
proof -
  from assms have "256 \<le> n - 1 - j" by simp
  then have "1 \<le> (n - 1 - j) div 256"
    by (metis div_le_mono div_self zero_neq_numeral)
  then show ?thesis unfolding last_same_def by linarith
qed

lemma encode_numbered:
  "\<exists>row. encode_request example_PayloadType (example_handler 4) (numbered_request k) = Some row"
  by (simp add: encode_request_def numbered_request_def example_defs)

lemma encoded_wrap_batch: "encoded example_PayloadType (example_handler 4) wrap_batch = wrap_batch"
  unfolding encoded_def by (rule filter_True) (auto simp: wrap_batch_def encode_numbered)

lemma wrap_pre_Inr:
  "Preprocess example_PayloadType (example_handler 4) ([], []) wrap_batch Map.empty = Inr wrap_pre"
  by (simp add: wrap_pre_def Preprocess_def Let_def example_handler_def)

subsection \<open>Loading\<close>

lemma leave_not_Loaded: "leave f h \<noteq> Loaded h' r dev"
  by (cases f) simp_all

lemma missing_max_length:
  "map_of items ''max_length'' = None \<Longrightarrow>
     read_max_length env (DObject items) = Inl (Terminate (RequiredFieldNotFound ''max_length''))"
  by (simp add: read_max_length_def)

lemma missing_tokenizer_path:
  "map_of items ''tokenizer_path'' = None \<Longrightarrow>
     load_tokenizer env dir (DObject items) =
       Inl (Terminate (RequiredFieldNotFound ''tokenizer_path''))"
  by (simp add: load_tokenizer_def config_string_def)

lemma missing_model_so_path:
  "map_of items ''model_so_path'' = None \<Longrightarrow>
     config_string (DObject items) ''model_so_path'' =
       Inl (Terminate (RequiredFieldNotFound ''model_so_path''))"
  by (simp add: config_string_def)

lemma example_config_loaded:
  "LoadJsonFile example_environment (configFilePath example_load_request) =
     Inr (DObject [(''max_length'', DInt 4), (''tokenizer_path'', DString ''tokenizer.json'')])"
  by (simp add: LoadJsonFile_def configFilePath_def path_join_def example_environment_def
        example_load_request_def example_config_def)

subsection \<open>The turn of one request, and the turn of one tracker entry\<close>

lemma preprocess_loop_append:
  "preprocess_loop pt h st (xs @ ys) = preprocess_loop pt h (preprocess_loop pt h st xs) ys"
  by (induction xs arbitrary: st) auto

lemma collected_rows:
  assumes "Preprocess pt h idx_to_req_id request_batch response_batch = Inr pre"
  shows "blob (tokens pre) = List.map_filter (encode_request pt h) request_batch"
    and "length (blob (tokens pre)) = length (encoded pt h request_batch)"
proof -
  show rows: "blob (tokens pre) = List.map_filter (encode_request pt h) request_batch"
    using Preprocess_Inr [OF assms] by (simp add: loop_tokens start_state_def)
  show "length (blob (tokens pre)) = length (encoded pt h request_batch)"
    unfolding rows by (simp add: List.map_filter_def encoded_def)
qed

lemma row_of_encoded:
  assumes "j < length (encoded pt h rs)"
  shows "encode_request pt h (encoded pt h rs ! j) =
           Some (List.map_filter (encode_request pt h) rs ! j)"
proof -
  let ?f = "encode_request pt h"
  from assms have "encoded pt h rs ! j \<in> set (encoded pt h rs)" by simp
  then have "?f (encoded pt h rs ! j) \<noteq> None" by (simp add: encoded_def)
  moreover have "List.map_filter ?f rs ! j = the (?f (encoded pt h rs ! j))"
    using assms by (simp add: List.map_filter_def encoded_def)
  ultimately show ?thesis by auto
qed

lemma payload_missing:
  "\<not> payload_valid pt r \<Longrightarrow> fst (find_payload pt r) = None \<or> snd (find_payload pt r) = None"
  by (auto simp: payload_valid_def has_pair_def find_payload_def Let_def)

lemma empty_payload_turn:
  assumes "fst (find_payload pt r) = None \<or> snd (find_payload pt r) = None"
  shows "left_response pt h r =
           SetResponse 500 ''data_type'' (kCONTENT_TYPE_TEXT pt) ''Empty payload''
             (new_InferenceResponse (request_id r))"
    and "encode_request pt h r = None"
  using assms
  by (auto simp: left_response_def encode_request_def Let_def split: prod.splits option.splits)

lemma last_same_small: "n \<le> 256 \<Longrightarrow> j < n \<Longrightarrow> last_same n j = j"
  by (simp add: last_same_def)

lemma tracker_entry:
  assumes pre: "Preprocess pt h idx_to_req_id request_batch response_batch = Inr pre"
      and j: "j < length (encoded pt h request_batch)"
  shows "map_of (idx_map (state pre)) (word_of_nat j) =
           Some (request_id (encoded pt h request_batch !
                   last_same (length (encoded pt h request_batch)) j))"
proof -
  let ?enc = "encoded pt h request_batch"
  have "idx_map (state pre) = assign_rows (snd idx_to_req_id) 0 (map request_id ?enc)"
    using Preprocess_Inr [OF pre] by (simp add: loop_idx_map start_state_def)
  moreover have "last_same (length ?enc) j < length ?enc" using j by (rule last_same_less)
  moreover have "map_of (assign_rows (snd idx_to_req_id) 0 (map request_id ?enc)) (0 + word_of_nat j) =
      Some (map request_id ?enc ! last_same (length (map request_id ?enc)) j)"
    using j by (intro map_of_assign_rows) simp
  ultimately show ?thesis by simp
qed

lemma Postprocess_split:
  "Postprocess pt h data (before @ kv # after) rs = Inr rs' \<Longrightarrow>
     \<exists>rs_b rs_t. Postprocess pt h data before rs = Inr rs_b \<and>
                 postprocess_row pt h data rs_b kv = Inr rs_t \<and>
                 Postprocess pt h data after rs_t = Inr rs'"
  by (induction before arbitrary: rs) (auto split: sum.splits)

lemma unat_word8_of_nat: "j < 256 \<Longrightarrow> unat (word_of_nat j :: uint8_t) = j"
  by (simp add: unsigned_of_nat take_bit_nat_eq_self)

lemma postprocess_row_label:
  assumes turn: "postprocess_row pt h data rs (word_of_nat j, rid) = Inr rs_t"
      and j: "j < 256" "j < length data" "data ! j = x # xs"
      and label: "mapping_json h = DObject items"
        "map_of items (to_string (int (argmax_from 0 x 1 xs))) = Some v" "asString v = Inr label"
  shows "\<exists>r. rs rid = Some r \<and>
             rs_t = rs(rid \<mapsto> SetResponse 200 ''data_type'' (kDATA_TYPE_STRING pt) label r)"
proof -
  have "decode_row h data (word_of_nat j) = Inr label"
    using j label by (simp add: decode_row_def unat_word8_of_nat Let_def)
  with turn show ?thesis
    by (auto simp: postprocess_row_def write_response_def split: option.splits)
qed

lemma example_encoded:
  "encoded example_PayloadType (example_handler 4) example_batch =
     [example_request ''a'' ''hi'', example_request ''d'' ''yo'']"
  by (simp add: encoded_def encode_request_def example_defs)

lemma wrap_batch_first: "wrap_batch ! 0 = numbered_request 0"
  by (simp add: wrap_batch_def)

lemmas load_defs =
  LoadModel_def LoadJsonFile_def mapFilePath_def configFilePath_def path_join_def
  read_max_length_def load_tokenizer_def config_string_def static_cast_int_def Let_def
  example_environment_def example_load_request_def

section \<open>The claims\<close>

text \<open>
  C1, as stated, fails. A batch of 257 requests that all encode: row 0 of the collected
  rows is the row of the first request, whose id is 0, and the tracker holds the id 256
  under the index 0, so that the entry \<^verbatim>\<open>Postprocess\<close> finds for row 0 of the engine output
  is the request that was encoded last.
\<close>

theorem row_correspondence_counterexample:
  "Preprocess example_PayloadType (example_handler 4) ([], []) wrap_batch Map.empty =
     Inr wrap_pre \<and>
   length (encoded example_PayloadType (example_handler 4) wrap_batch) = 257 \<and>
   encode_request example_PayloadType (example_handler 4) (numbered_request 0) =
     Some (blob (tokens wrap_pre) ! 0) \<and>
   request_id (numbered_request 0) = ''0'' \<and>
   map_of (idx_map (state wrap_pre)) 0 = Some ''256'' \<and>
   (0, ''256'') \<in> set (idx_map (state wrap_pre))"
proof -
  have len: "length wrap_batch = 257" by (simp add: wrap_batch_def)
  have j: "0 < length (encoded example_PayloadType (example_handler 4) wrap_batch)"
    by (simp add: encoded_wrap_batch len)
  have a: "encode_request example_PayloadType (example_handler 4) (numbered_request 0) =
     Some (blob (tokens wrap_pre) ! 0)"
    using row_of_encoded [OF j]
    by (simp add: encoded_wrap_batch wrap_batch_first collected_rows(1) [OF wrap_pre_Inr])
  have i: "request_id (numbered_request 0) = ''0''"
    by (simp add: numbered_request_def example_request_def to_string_def
          string_of_nat.simps digit_char_def)
  have "last_same 257 0 = 256" by (simp add: last_same_def)
  moreover have "request_id (wrap_batch ! 256) = ''256''"
    by (simp add: wrap_batch_def numbered_request_def example_request_def to_string_def
          string_of_nat.simps digit_char_def)
  ultimately have b: "map_of (idx_map (state wrap_pre)) 0 = Some ''256''"
    using tracker_entry [OF wrap_pre_Inr j] by (simp add: encoded_wrap_batch len)
  from b have "(0, ''256'') \<in> set (idx_map (state wrap_pre))" by (rule map_of_SomeD)
  with wrap_pre_Inr a i b show ?thesis by (simp add: encoded_wrap_batch len)
qed

text \<open>
  C1, amended. When at most 256 requests of a batch encode, the \<open>j\<close>-th of them has its
  row at place \<open>j\<close> of the collected rows and its id in the tracker under the index \<open>j\<close>.
  When postprocessing runs to its end and the mapping has a label for the arg-max of row
  \<open>j\<close> of the engine output, the turn of that tracker entry sets the response of this id
  to 200 with that label, the other responses staying as the turns before left them; it
  is the response the id ends with unless a later tracker entry holds the same id.
\<close>

theorem row_correspondence:
  assumes pre: "Preprocess pt h idx_to_req_id request_batch response_batch = Inr pre"
      and few: "length (encoded pt h request_batch) \<le> 256"
      and j: "j < length (encoded pt h request_batch)"
      and rid: "rid = request_id (encoded pt h request_batch ! j)"
      and post: "Postprocess pt h data (idx_map (state pre)) (responses (state pre)) = Inr rs'"
      and row: "j < length data" "data ! j = x # xs"
      and label: "mapping_json h = DObject items"
        "map_of items (to_string (int (argmax_from 0 x 1 xs))) = Some v" "asString v = Inr label"
  shows "encode_request pt h (encoded pt h request_batch ! j) = Some (blob (tokens pre) ! j) \<and>
         map_of (idx_map (state pre)) (word_of_nat j) = Some rid \<and>
         (\<exists>before after rs_b r.
            idx_map (state pre) = before @ (word_of_nat j, rid) # after \<and>
            Postprocess pt h data before (responses (state pre)) = Inr rs_b \<and>
            rs_b rid = Some r \<and>
            Postprocess pt h data after
              (rs_b(rid \<mapsto> SetResponse 200 ''data_type'' (kDATA_TYPE_STRING pt) label r)) = Inr rs' \<and>
            (rid \<notin> snd ` set after \<longrightarrow>
               rs' rid = Some (SetResponse 200 ''data_type'' (kDATA_TYPE_STRING pt) label r)))"
proof -
  let ?enc = "encoded pt h request_batch"
  have a: "encode_request pt h (?enc ! j) = Some (blob (tokens pre) ! j)"
    using row_of_encoded [OF j] by (simp add: collected_rows(1) [OF pre])
  have b: "map_of (idx_map (state pre)) (word_of_nat j) = Some rid"
    using tracker_entry [OF pre j] few j by (simp add: last_same_small rid)
  then have "(word_of_nat j, rid) \<in> set (idx_map (state pre))" by (rule map_of_SomeD)
  then obtain before after where
    split: "idx_map (state pre) = before @ (word_of_nat j, rid) # after"
    by (auto dest: split_list)
  from post obtain rs_b rs_t where
    pb: "Postprocess pt h data before (responses (state pre)) = Inr rs_b" and
    turn: "postprocess_row pt h data rs_b (word_of_nat j, rid) = Inr rs_t" and
    pa: "Postprocess pt h data after rs_t = Inr rs'"
    unfolding split by (blast dest: Postprocess_split)
  from few j have "j < 256" by simp
  from postprocess_row_label [OF turn this row label] obtain r where
    r: "rs_b rid = Some r" and
    t: "rs_t = rs_b(rid \<mapsto> SetResponse 200 ''data_type'' (kDATA_TYPE_STRING pt) label r)"
    by blast
  have fin: "rs' rid = Some (SetResponse 200 ''data_type'' (kDATA_TYPE_STRING pt) label r)"
    if "rid \<notin> snd ` set after"
    using Postprocess_other [OF pa that] by (simp add: t)
  from split pb r pa [unfolded t] fin have "\<exists>before after rs_b r.
            idx_map (state pre) = before @ (word_of_nat j, rid) # after \<and>
            Postprocess pt h data before (responses (state pre)) = Inr rs_b \<and>
            rs_b rid = Some r \<and>
            Postprocess pt h data after
              (rs_b(rid \<mapsto> SetResponse 200 ''data_type'' (kDATA_TYPE_STRING pt) label r)) = Inr rs' \<and>
            (rid \<notin> snd ` set after \<longrightarrow>
               rs' rid = Some (SetResponse 200 ''data_type'' (kDATA_TYPE_STRING pt) label r))"
    by blast
  with a b show ?thesis by blast
qed

theorem row_correspondence_witness:
  "Preprocess example_PayloadType (example_handler 4) ([], []) example_batch Map.empty =
     Inr example_pre \<and>
   length (encoded example_PayloadType (example_handler 4) example_batch) \<le> 256 \<and>
   1 < length (encoded example_PayloadType (example_handler 4) example_batch) \<and>
   ''d'' = request_id (encoded example_PayloadType (example_handler 4) example_batch ! 1) \<and>
   Postprocess example_PayloadType (example_handler 4) example_output
     (idx_map (state example_pre)) (responses (state example_pre)) = Inr example_post \<and>
   1 < length example_output \<and> example_output ! 1 = 5 # [2] \<and>
   mapping_json (example_handler 4) =
     DObject [(''0'', DString ''negative''), (''1'', DString ''positive'')] \<and>
   map_of [(''0'', DString ''negative''), (''1'', DString ''positive'')]
     (to_string (int (argmax_from 0 5 1 [2 :: int]))) = Some (DString ''negative'') \<and>
   asString (DString ''negative'') = Inr ''negative'' \<and>
   encode_request example_PayloadType (example_handler 4) (example_request ''d'' ''yo'') =
     Some (blob (tokens example_pre) ! 1) \<and>
   map_of (idx_map (state example_pre)) 1 = Some ''d'' \<and>
   map_option status_code (example_post ''d'') = Some (Some 200) \<and>
   map_option body (example_post ''d'') = Some ''negative''"
proof -
  let ?enc = "encoded example_PayloadType (example_handler 4) example_batch"
  have few: "length ?enc \<le> 256" and j: "1 < length ?enc"
    and rid: "''d'' = request_id (?enc ! 1)"
    by (simp_all add: example_encoded example_request_def)
  have row: "1 < length example_output" "example_output ! 1 = 5 # [2]"
    by (simp_all add: example_output_def)
  have m: "mapping_json (example_handler 4) =
     DObject [(''0'', DString ''negative''), (''1'', DString ''positive'')]"
    by (simp add: example_handler_def)
  have l: "map_of [(''0'', DString ''negative''), (''1'', DString ''positive'')]
     (to_string (int (argmax_from 0 5 1 [2 :: int]))) = Some (DString ''negative'')"
    by (simp add: to_string_def string_of_nat.simps digit_char_def)
  have s: "asString (DString ''negative'') = Inr ''negative''" by simp
  note t = row_correspondence [OF example_pre_Inr few j rid example_post_Inr row m l s]
  from t have a: "encode_request example_PayloadType (example_handler 4)
      (example_request ''d'' ''yo'') = Some (blob (tokens example_pre) ! 1)"
    by (simp add: example_encoded)
  from t have b: "map_of (idx_map (state example_pre)) 1 = Some ''d''" by simp
  from t obtain before after r where
    split: "idx_map (state example_pre) = before @ (1, ''d'') # after" and
    fin: "''d'' \<notin> snd ` set after \<longrightarrow>
      example_post ''d'' = Some (SetResponse 200 ''data_type''
        (kDATA_TYPE_STRING example_PayloadType) ''negative'' r)"
    by auto
  from split have "after = []"
    by (auto simp: example_pre_idx_map Cons_eq_append_conv)
  with fin have "example_post ''d'' = Some (SetResponse 200 ''data_type''
        (kDATA_TYPE_STRING example_PayloadType) ''negative'' r)" by simp
  then have c: "map_option status_code (example_post ''d'') = Some (Some 200)"
      "map_option body (example_post ''d'') = Some ''negative''"
    by (simp_all add: SetResponse_def)
  from example_pre_Inr few j rid example_post_Inr row m l s a b c show ?thesis by blast
qed

text \<open>
  C2. The fixed shape of the token rows. Every row has \<open>max_length\<close> entries
  (\<open>row_width\<close>) and a short sequence is padded on the right (\<open>short_row\<close>). A sequence
  that is too long is logged as an error and then encoded all the same: with
  \<open>max_length\<close> 2 and a prompt of three tokens, the log has the line, the row holds the
  first two ids, the tracker has the entry for row 0 and the response is the untouched
  placeholder. The request is not rejected.
\<close>

theorem overlong_prompt_is_encoded:
  "\<not> isl overlong_result \<and>
   logs (state (projr overlong_result)) = [PromptTooLong 3 2] \<and>
   blob (tokens (projr overlong_result)) = [[97, 98]] \<and>
   idx_map (state (projr overlong_result)) = [(0, ''a'')] \<and>
   responses (state (projr overlong_result)) ''a'' = Some (new_InferenceResponse ''a'')"
  by (simp add: overlong_result_def example_defs)

text \<open>
  C3. The rows of the returned token tensor against the tracker. A batch of one request
  without payload: no row is collected and the tracker has no entry, and line 136
  declares the returned tensor with one row, the size of the request batch.
\<close>

theorem declared_rows_exceed_tracker:
  "\<not> isl no_payload_result \<and>
   fst (sizes (tokens (projr no_payload_result))) = 1 \<and>
   length (blob (tokens (projr no_payload_result))) = 0 \<and>
   length (idx_map (state (projr no_payload_result))) = 0"
  by (simp add: no_payload_result_def example_defs)

text \<open>
  C4, as stated, fails in its row count. A batch of a request without payload and a
  request whose payload is found but whose tokenization raises: one request has a valid
  payload, and no row is collected and no row index assigned.
\<close>

theorem row_count_counterexample:
  "\<not> isl failed_result \<and>
   length (filter (payload_valid example_PayloadType) failed_batch) = 1 \<and>
   length (blob (tokens (projr failed_result))) = 0 \<and>
   length (idx_map (state (projr failed_result))) = 0"
  by (simp add: failed_result_def failed_batch_def payload_valid_def has_pair_def example_defs)

text \<open>
  C4, amended. A request of the batch that has neither payload key pair: in its turn of
  the loop its response becomes the 500 response \<open>Empty payload\<close>, while the row counter,
  the tracker and the collected rows stay as they are; the loop goes on with the requests
  after it; the number of collected rows is the number of the other requests whose
  payload is found and whose tokenization returns; and the 500 response is the one the
  request ends preprocessing with unless a later request has the same id.
\<close>

theorem empty_payload_excluded:
  assumes pre: "Preprocess pt h idx_to_req_id (before @ r # after) response_batch = Inr pre"
      and neither: "\<not> payload_valid pt r"
      and st: "st = preprocess_loop pt h (start_state idx_to_req_id response_batch) before"
  shows "responses (preprocess_request pt h st r) (request_id r) =
           Some (SetResponse 500 ''data_type'' (kCONTENT_TYPE_TEXT pt) ''Empty payload''
                   (new_InferenceResponse (request_id r))) \<and>
         idx (preprocess_request pt h st r) = idx st \<and>
         idx_map (preprocess_request pt h st r) = idx_map st \<and>
         tokens_ivalue (preprocess_request pt h st r) = tokens_ivalue st \<and>
         state pre = preprocess_loop pt h (preprocess_request pt h st r) after \<and>
         length (blob (tokens pre)) = length (encoded pt h (before @ after)) \<and>
         (request_id r \<notin> request_id ` set after \<longrightarrow>
            responses (state pre) (request_id r) =
              Some (SetResponse 500 ''data_type'' (kCONTENT_TYPE_TEXT pt) ''Empty payload''
                      (new_InferenceResponse (request_id r))))"
proof -
  note turn = empty_payload_turn [OF payload_missing [OF neither], of h]
  let ?st' = "preprocess_request pt h st r"
  have resp: "responses ?st' (request_id r) =
      Some (SetResponse 500 ''data_type'' (kCONTENT_TYPE_TEXT pt) ''Empty payload''
              (new_InferenceResponse (request_id r)))"
    by (simp add: step_responses turn(1))
  have same: "idx ?st' = idx st" "idx_map ?st' = idx_map st" "tokens_ivalue ?st' = tokens_ivalue st"
    by (simp_all add: step_idx step_idx_map step_tokens turn(2))
  have final: "state pre = preprocess_loop pt h ?st' after"
    using Preprocess_Inr [OF pre] by (simp add: preprocess_loop_append st)
  have count: "length (blob (tokens pre)) = length (encoded pt h (before @ after))"
    using collected_rows(2) [OF pre] turn(2) by (simp add: encoded_def)
  have last: "responses (state pre) (request_id r) =
      Some (SetResponse 500 ''data_type'' (kCONTENT_TYPE_TEXT pt) ''Empty payload''
              (new_InferenceResponse (request_id r)))"
    if "request_id r \<notin> request_id ` set after"
    using that resp by (simp add: final loop_responses_other)
  from resp same final count last show ?thesis by blast
qed

theorem empty_payload_excluded_witness:
  "Preprocess example_PayloadType (example_handler 4) ([], [])
     ([example_request ''a'' ''hi''] @ request_without_payload ''b'' #
      [example_request ''c'' ''boom'', example_request ''d'' ''yo'']) Map.empty = Inr example_pre \<and>
   \<not> payload_valid example_PayloadType (request_without_payload ''b'') \<and>
   map_option status_code (responses (state example_pre) ''b'') = Some (Some 500) \<and>
   map_option body (responses (state example_pre) ''b'') = Some ''Empty payload'' \<and>
   length (blob (tokens example_pre)) = 2 \<and>
   idx_map (state example_pre) = [(0, ''a''), (1, ''d'')]"
proof -
  have p: "Preprocess example_PayloadType (example_handler 4) ([], [])
     ([example_request ''a'' ''hi''] @ request_without_payload ''b'' #
      [example_request ''c'' ''boom'', example_request ''d'' ''yo'']) Map.empty = Inr example_pre"
    using example_pre_Inr by (simp add: example_batch_def)
  have neither: "\<not> payload_valid example_PayloadType (request_without_payload ''b'')"
    by (simp add: payload_valid_def has_pair_def request_without_payload_def)
  have enc: "encoded example_PayloadType (example_handler 4)
      ([example_request ''a'' ''hi''] @ [example_request ''c'' ''boom'', example_request ''d'' ''yo'']) =
      [example_request ''a'' ''hi'', example_request ''d'' ''yo'']"
    by (simp add: encoded_def encode_request_def example_defs)
  note t = empty_payload_excluded [OF p neither refl]
  from t have "length (blob (tokens example_pre)) =
      length (encoded example_PayloadType (example_handler 4)
        ([example_request ''a'' ''hi''] @
         [example_request ''c'' ''boom'', example_request ''d'' ''yo'']))"
    by blast
  then have count: "length (blob (tokens example_pre)) = 2" by (simp only: enc) simp
  from t have "request_id (request_without_payload ''b'') \<notin>
        request_id ` set [example_request ''c'' ''boom'', example_request ''d'' ''yo''] \<longrightarrow>
      responses (state example_pre) (request_id (request_without_payload ''b'')) =
        Some (SetResponse 500 ''data_type'' (kCONTENT_TYPE_TEXT example_PayloadType)
                ''Empty payload'' (new_InferenceResponse (request_id (request_without_payload ''b''))))"
    by blast
  then have resp: "responses (state example_pre) ''b'' =
      Some (SetResponse 500 ''data_type'' ''text'' ''Empty payload'' (new_InferenceResponse ''b''))"
    by (simp add: request_without_payload_def example_request_def example_PayloadType_def)
  have "map_option status_code (responses (state example_pre) ''b'') = Some (Some 500)"
       "map_option body (responses (state example_pre) ''b'') = Some ''Empty payload''"
    by (simp_all add: resp SetResponse_def)
  with p neither count example_pre_idx_map show ?thesis by blast
qed

text \<open>
  C5. A tracked row whose arg-max class has no entry in the label mapping: the lookup
  logs the missing field and runs a bare \<^verbatim>\<open>throw;\<close> with no exception in flight, so the
  process is terminated. Here the mapping has the labels 0 and 1 and the second of three
  tracked rows predicts class 2: no response is set to 500 and the third row is never
  reached.
\<close>

theorem unknown_label_terminates:
  "Postprocess example_PayloadType (example_handler 4) [[1, 3, 0], [1, 3, 5], [3, 1, 0 :: int]]
     [(0, ''a''), (1, ''b''), (2, ''c'')]
     [''a'' \<mapsto> new_InferenceResponse ''a'', ''b'' \<mapsto> new_InferenceResponse ''b'',
      ''c'' \<mapsto> new_InferenceResponse ''c''] =
   Inl (Terminate (RequiredFieldNotFound ''2''))"
  by (simp add: postprocess_defs)

text \<open>
  C6, as stated, fails. With \<open>model_so_path\<close> absent from the config and a tokenizer
  file that holds a JSON object, line 40 raises before \<open>model_so_path\<close> is looked up: the
  exception leaves \<^verbatim>\<open>LoadModel\<close> with the mapping, the config and \<open>max_length\<close> assigned,
  and the failure is not the missing field. And a label mapping that has none of the
  three keys does not keep a model with a complete config from loading.
\<close>

theorem LoadModel_atomicity_counterexample:
  "LoadJsonFile object_tokenizer_environment (configFilePath example_load_request) =
     Inr (DObject [(''max_length'', DInt 4), (''tokenizer_path'', DString ''tokenizer.json'')]) \<and>
   map_of [(''max_length'', DInt 4), (''tokenizer_path'', DString ''tokenizer.json'')]
     ''model_so_path'' = None \<and>
   LoadModel object_tokenizer_environment example_load_request (example_handler 0) =
     Throws runtime_error
       \<lparr>mapping_json = DObject [(''0'', DString ''negative'')],
        config_json = DObject [(''max_length'', DInt 4), (''tokenizer_path'', DString ''tokenizer.json'')],
        max_length = 4, tokenizer = example_tokenizer\<rparr> \<and>
   map_of [(''0'', DString ''negative'')] ''max_length'' = None \<and>
   LoadModel complete_environment example_load_request (example_handler 0) =
     Loaded
       \<lparr>mapping_json = DObject [(''0'', DString ''negative'')], config_json = complete_config,
        max_length = 4, tokenizer = example_tokenizer\<rparr>
       (AOTIModelContainerRunnerCpu ''m/model.so'') \<lparr>is_cuda = False, str = ''cpu''\<rparr>"
  by (simp add: load_defs object_tokenizer_environment_def complete_environment_def
        example_config_def complete_config_def example_handler_def)

text \<open>
  C6, amended. When the config document is an object that lacks \<open>max_length\<close>,
  \<open>tokenizer_path\<close> or \<open>model_so_path\<close>, \<^verbatim>\<open>LoadModel\<close> never returns a loaded handler;
  and when the steps that run before the lookup of that key return, the loading ends with
  the failure of that lookup.
\<close>

theorem LoadModel_missing_key:
  assumes config: "LoadJsonFile env (configFilePath load_model_request) = Inr (DObject items)"
      and key: "key \<in> set required_keys"
      and missing: "map_of items key = None"
  shows "(\<forall>h' r dev. LoadModel env load_model_request h \<noteq> Loaded h' r dev) \<and>
         (reaches_lookup env load_model_request (DObject items) key \<longrightarrow>
            (\<exists>f h'. GetJsonValue (DObject items) key = Inl f \<and>
                    LoadModel env load_model_request h = leave f h'))"
proof -
  have look: "GetJsonValue (DObject items) key = Inl (Terminate (RequiredFieldNotFound key))"
    using missing by simp
  from key consider "key = ''max_length''" | "key = ''tokenizer_path''" | "key = ''model_so_path''"
    by (auto simp: required_keys_def)
  then have "(\<forall>h' r dev. LoadModel env load_model_request h \<noteq> Loaded h' r dev) \<and>
         (reaches_lookup env load_model_request (DObject items) key \<longrightarrow>
            LoadModel env load_model_request h = leave (Terminate (RequiredFieldNotFound key)) h)"
  proof cases
    case 1
    with missing have "read_max_length env (DObject items) =
        Inl (Terminate (RequiredFieldNotFound key))"
      by (simp add: missing_max_length)
    with config show ?thesis
      by (auto simp: LoadModel_def reaches_lookup_def leave_not_Loaded split: sum.splits)
  next
    case 2
    with missing have "load_tokenizer env (model_dir load_model_request) (DObject items) =
        Inl (Terminate (RequiredFieldNotFound key))"
      by (simp add: missing_tokenizer_path)
    with config 2 show ?thesis
      by (auto simp: LoadModel_def reaches_lookup_def leave_not_Loaded split: sum.splits)
  next
    case 3
    with missing have "config_string (DObject items) ''model_so_path'' =
        Inl (Terminate (RequiredFieldNotFound key))"
      by (simp add: missing_model_so_path)
    with config 3 show ?thesis
      by (auto simp: LoadModel_def reaches_lookup_def leave_not_Loaded Let_def split: sum.splits)
  qed
  with look show ?thesis by blast
qed

theorem LoadModel_missing_key_witness:
  "LoadJsonFile example_environment (configFilePath example_load_request) =
     Inr (DObject [(''max_length'', DInt 4), (''tokenizer_path'', DString ''tokenizer.json'')]) \<and>
   ''model_so_path'' \<in> set required_keys \<and>
   map_of [(''max_length'', DInt 4), (''tokenizer_path'', DString ''tokenizer.json'')]
     ''model_so_path'' = None \<and>
   reaches_lookup example_environment example_load_request
     (DObject [(''max_length'', DInt 4), (''tokenizer_path'', DString ''tokenizer.json'')])
     ''model_so_path'' \<and>
   GetJsonValue (DObject [(''max_length'', DInt 4), (''tokenizer_path'', DString ''tokenizer.json'')])
     ''model_so_path'' = Inl (Terminate (RequiredFieldNotFound ''model_so_path'')) \<and>
   LoadModel example_environment example_load_request (example_handler 0) =
     leave (Terminate (RequiredFieldNotFound ''model_so_path'')) (example_handler 0)"
proof -
  have k: "''model_so_path'' \<in> set required_keys" by (simp add: required_keys_def)
  have m: "map_of [(''max_length'', DInt 4), (''tokenizer_path'', DString ''tokenizer.json'')]
     ''model_so_path'' = None" by simp
  have r: "reaches_lookup example_environment example_load_request
     (DObject [(''max_length'', DInt 4), (''tokenizer_path'', DString ''tokenizer.json'')])
     ''model_so_path''"
    by (simp add: reaches_lookup_def LoadJsonFile_def mapFilePath_def path_join_def
          example_environment_def example_load_request_def read_max_length_def
          load_tokenizer_def config_string_def)
  show ?thesis
    using LoadModel_missing_key [OF example_config_loaded k m, of "example_handler 0"]
      example_config_loaded k m r
    by auto
qed

text \<open>
  C7, as stated, fails. The sequence that consists of the pad id alone is shorter than
  \<open>max_length\<close> 2; nothing stands before the first pad token of its padded row.
\<close>

theorem padding_roundtrip_counterexample:
  "int (length [0 :: int]) < max_length (example_handler 2) \<and>
   unpad (TokenToId (tokenizer (example_handler 2)) ''<pad>'')
     (from_blob (pad_token_ids (example_handler 2) [0]) (max_length (example_handler 2))) \<noteq> [0]"
  by (simp add: example_handler_def example_tokenizer_def unpad_def from_blob_def pad_token_ids_def)

text \<open>
  C7, amended. For every token sequence shorter than \<open>max_length\<close> in which the pad id
  does not occur, the ids before the first pad token of its padded row are the sequence
  itself.
\<close>

theorem padding_roundtrip:
  assumes "int (length token_ids) < max_length h"
      and "TokenToId (tokenizer h) ''<pad>'' \<notin> set token_ids"
  shows "unpad (TokenToId (tokenizer h) ''<pad>'')
           (from_blob (pad_token_ids h token_ids) (max_length h)) = token_ids"
proof -
  let ?pad = "TokenToId (tokenizer h) ''<pad>''"
  have "from_blob (pad_token_ids h token_ids) (max_length h) =
          token_ids @ replicate (nat (max_length h) - length token_ids) ?pad"
    using assms(1) by (auto simp: from_blob_def pad_token_ids_def Let_def nat_diff_distrib)
  moreover have "takeWhile (\<lambda>t. t \<noteq> ?pad) (token_ids @ replicate n ?pad) = token_ids" for n
    using assms(2) by (induction token_ids) (auto simp: takeWhile_eq_Nil_iff)
  ultimately show ?thesis by (simp add: unpad_def)
qed

theorem padding_roundtrip_witness:
  "int (length [104, 105 :: int]) < max_length (example_handler 4) \<and>
   TokenToId (tokenizer (example_handler 4)) ''<pad>'' \<notin> set [104, 105] \<and>
   from_blob (pad_token_ids (example_handler 4) [104, 105]) (max_length (example_handler 4)) =
     [104, 105, 0, 0] \<and>
   unpad (TokenToId (tokenizer (example_handler 4)) ''<pad>'')
     (from_blob (pad_token_ids (example_handler 4) [104, 105]) (max_length (example_handler 4))) =
     [104, 105]"
proof -
  have a: "int (length [104, 105 :: int]) < max_length (example_handler 4)"
    by (simp add: example_handler_def)
  have b: "TokenToId (tokenizer (example_handler 4)) ''<pad>'' \<notin> set [104, 105]"
    by (simp add: example_handler_def example_tokenizer_def)
  show ?thesis
    using padding_roundtrip [OF a b] a b
    by (simp add: example_handler_def example_tokenizer_def from_blob_def pad_token_ids_def
          eval_nat_numeral)
qed

text \<open>
  C8. The data parameter without its data-type header. In a batch with pairwise
  different request ids, preprocessed with a fresh tracker, such a request is looked up
  under the data pair only, whatever its body pair is: it ends with the 500 response
  \<open>Empty payload\<close>, adds no row and is recorded under no row index.
\<close>

theorem data_without_header_no_fallback:
  assumes pre: "Preprocess pt h (first, []) request_batch response_batch = Inr pre"
      and ids: "distinct (map request_id request_batch)"
      and r: "r \<in> set request_batch"
      and data: "parameters r (kPARAMETER_NAME_DATA pt) \<noteq> None"
      and header: "headers r (kHEADER_NAME_DATA_TYPE pt) = None"
  shows "find_payload pt r = (parameters r (kPARAMETER_NAME_DATA pt), None) \<and>
         responses (state pre) (request_id r) =
           Some (SetResponse 500 ''data_type'' (kCONTENT_TYPE_TEXT pt) ''Empty payload''
                   (new_InferenceResponse (request_id r))) \<and>
         encode_request pt h r = None \<and>
         request_id r \<notin> snd ` set (idx_map (state pre))"
proof -
  from data header have fp: "find_payload pt r = (parameters r (kPARAMETER_NAME_DATA pt), None)"
    by (auto simp: find_payload_def Let_def)
  then have "fst (find_payload pt r) = None \<or> snd (find_payload pt r) = None" by simp
  from incomplete_payload [OF pre ids r this] fp show ?thesis by simp
qed

theorem data_without_header_no_fallback_witness:
  "Preprocess example_PayloadType (example_handler 4) ([], []) fallback_batch Map.empty =
     Inr fallback_pre \<and>
   distinct (map request_id fallback_batch) \<and>
   request_without_data_header ''x'' \<in> set fallback_batch \<and>
   has_pair (request_without_data_header ''x'') ''body'' ''body_dtype'' \<and>
   parameters (request_without_data_header ''x'') (kPARAMETER_NAME_DATA example_PayloadType) \<noteq> None \<and>
   headers (request_without_data_header ''x'') (kHEADER_NAME_DATA_TYPE example_PayloadType) = None \<and>
   find_payload example_PayloadType (request_without_data_header ''x'') = (Some ''hi'', None) \<and>
   map_option status_code (responses (state fallback_pre) ''x'') = Some (Some 500) \<and>
   map_option body (responses (state fallback_pre) ''x'') = Some ''Empty payload'' \<and>
   ''x'' \<notin> snd ` set (idx_map (state fallback_pre))"
proof -
  have p: "Preprocess example_PayloadType (example_handler 4) ([], []) fallback_batch Map.empty =
     Inr fallback_pre"
    by (simp add: fallback_pre_def Preprocess_def Let_def example_handler_def)
  have ids: "distinct (map request_id fallback_batch)"
    by (simp add: fallback_batch_def request_without_data_header_def example_request_def)
  have mem: "request_without_data_header ''x'' \<in> set fallback_batch"
    by (simp add: fallback_batch_def)
  have d: "parameters (request_without_data_header ''x'')
      (kPARAMETER_NAME_DATA example_PayloadType) \<noteq> None"
    by (simp add: request_without_data_header_def example_PayloadType_def)
  have hd: "headers (request_without_data_header ''x'')
      (kHEADER_NAME_DATA_TYPE example_PayloadType) = None"
    by (simp add: request_without_data_header_def example_PayloadType_def)
  have b: "has_pair (request_without_data_header ''x'') ''body'' ''body_dtype''"
    by (simp add: has_pair_def request_without_data_header_def)
  show ?thesis
    using data_without_header_no_fallback [OF p ids mem d hd] p ids mem b d hd
    by (simp add: request_without_data_header_def example_PayloadType_def SetResponse_def)
qed

text \<open>
  C9. The 8-bit row counter. When more than 256 requests of a batch encode, the counter
  ends at their number modulo 256 and the tracker has 256 entries for more than 256
  collected rows. The entry at the index of the \<open>j\<close>-th encoding holds the id of the last
  encoding with the same index; for every encoding followed by another one 256 places
  later that is a later request.
\<close>

theorem row_index_wraps:
  assumes pre: "Preprocess pt h (first, []) request_batch response_batch = Inr pre"
      and many: "256 < length (encoded pt h request_batch)"
  shows "idx (state pre) = word_of_nat (length (encoded pt h request_batch)) \<and>
         length (blob (tokens pre)) = length (encoded pt h request_batch) \<and>
         length (idx_map (state pre)) = 256 \<and>
         (\<forall>j < length (encoded pt h request_batch).
            map_of (idx_map (state pre)) (word_of_nat j) =
              Some (request_id (encoded pt h request_batch !
                      last_same (length (encoded pt h request_batch)) j))) \<and>
         (\<forall>j. j + 256 < length (encoded pt h request_batch) \<longrightarrow>
            j < last_same (length (encoded pt h request_batch)) j \<and>
            last_same (length (encoded pt h request_batch)) j < length (encoded pt h request_batch))"
proof -
  let ?enc = "encoded pt h request_batch"
  note p = Preprocess_Inr [OF pre]
  have i: "idx (state pre) = word_of_nat (length ?enc)"
    using p by (simp add: loop_idx start_state_def)
  have "length (List.map_filter (encode_request pt h) request_batch) = length ?enc"
    by (simp add: List.map_filter_def encoded_def)
  then have rows: "length (blob (tokens pre)) = length ?enc"
    using p by (simp add: loop_tokens start_state_def)
  have len: "length (idx_map (state pre)) = 256"
    using many by (simp add: tracker_fresh [OF pre] length_assign_rows_fresh)
  have look: "map_of (idx_map (state pre)) (word_of_nat j) =
      Some (request_id (?enc ! last_same (length ?enc) j))" if "j < length ?enc" for j
  proof -
    have "last_same (length ?enc) j < length ?enc" using that by (rule last_same_less)
    moreover have "map_of (assign_rows [] 0 (map request_id ?enc)) (0 + word_of_nat j) =
        Some (map request_id ?enc ! last_same (length (map request_id ?enc)) j)"
      using that by (intro map_of_assign_rows) simp
    ultimately show ?thesis by (simp add: tracker_fresh [OF pre])
  qed
  have over: "j < last_same (length ?enc) j \<and> last_same (length ?enc) j < length ?enc"
    if "j + 256 < length ?enc" for j
    using that last_same_greater [OF that] last_same_less [of j "length ?enc"] by simp
  from i rows len look over show ?thesis by blast
qed

theorem row_index_wraps_witness:
  "Preprocess example_PayloadType (example_handler 4) ([], []) wrap_batch Map.empty = Inr wrap_pre \<and>
   256 < length (encoded example_PayloadType (example_handler 4) wrap_batch) \<and>
   idx (state wrap_pre) = 1 \<and>
   length (blob (tokens wrap_pre)) = 257 \<and>
   length (idx_map (state wrap_pre)) = 256 \<and>
   map_of (idx_map (state wrap_pre)) 0 = Some ''256'' \<and>
   map_of (idx_map (state wrap_pre)) 1 = Some ''1''"
proof -
  have many: "256 < length (encoded example_PayloadType (example_handler 4) wrap_batch)"
    by (simp add: encoded_wrap_batch) (simp add: wrap_batch_def)
  have len: "length wrap_batch = 257" by (simp add: wrap_batch_def)
  have l0: "last_same 257 0 = 256" and l1: "last_same 257 (Suc 0) = 1"
    by (simp_all add: last_same_def)
  have r256: "request_id (wrap_batch ! 256) = ''256''"
    by (simp add: wrap_batch_def numbered_request_def example_request_def to_string_def
          string_of_nat.simps digit_char_def)
  have r1: "request_id (wrap_batch ! Suc 0) = ''1''"
    by (simp add: wrap_batch_def numbered_request_def example_request_def to_string_def
          string_of_nat.simps digit_char_def)
  from row_index_wraps [OF wrap_pre_Inr many]
  have c: "idx (state wrap_pre) = word_of_nat 257"
       "length (blob (tokens wrap_pre)) = 257"
       "length (idx_map (state wrap_pre)) = 256"
       "\<forall>j<257. map_of (idx_map (state wrap_pre)) (word_of_nat j) =
           Some (request_id (wrap_batch ! last_same 257 j))"
    by (simp_all add: encoded_wrap_batch len)
  have "map_of (idx_map (state wrap_pre)) (word_of_nat 0) =
      Some (request_id (wrap_batch ! last_same 257 0))"
    by (rule c(4) [rule_format]) simp
  then have e0: "map_of (idx_map (state wrap_pre)) 0 = Some ''256''" by (simp add: l0 r256)
  have "map_of (idx_map (state wrap_pre)) (word_of_nat 1) =
      Some (request_id (wrap_batch ! last_same 257 1))"
    by (rule c(4) [rule_format]) simp
  then have e1: "map_of (idx_map (state wrap_pre)) 1 = Some ''1''" by (simp add: l1 r1)
  from c(1) have i: "idx (state wrap_pre) = 1" by simp
  from wrap_pre_Inr many i c(2) c(3) e0 e1 show ?thesis by blast
qed

text \<open>
  C10. The aggregate id string. Every request of the batch, whether it is encoded or not,
  appends its id by the rule of lines 81-83, in arrival order; from an empty string, and
  with a first id that is not empty, the result is the ids of all requests joined by
  commas.
\<close>

theorem aggregate_ids_all_requests:
  assumes "Preprocess pt h (first, m) request_batch response_batch = Inr pre"
  shows "aggregate (state pre) = foldl append_id first (map request_id request_batch) \<and>
         (first = [] \<and> (request_batch \<noteq> [] \<longrightarrow> request_id (hd request_batch) \<noteq> []) \<longrightarrow>
            aggregate (state pre) = join_ids (map request_id request_batch))"
proof -
  have agg: "aggregate (state pre) = foldl append_id first (map request_id request_batch)"
    using Preprocess_Inr [OF assms] by (simp add: loop_aggregate start_state_def)
  have "foldl append_id [] (map request_id request_batch) = join_ids (map request_id request_batch)"
    if "request_batch \<noteq> [] \<longrightarrow> request_id (hd request_batch) \<noteq> []"
    using that by (intro foldl_append_id_join) (auto simp: hd_map)
  with agg show ?thesis by auto
qed

theorem aggregate_ids_all_requests_witness:
  "Preprocess example_PayloadType (example_handler 4) ([], []) example_batch Map.empty =
     Inr example_pre \<and>
   aggregate (state example_pre) = ''a,b,c,d'' \<and>
   idx_map (state example_pre) = [(0, ''a''), (1, ''d'')]"
  using aggregate_ids_all_requests [OF example_pre_Inr] example_pre_Inr example_pre_idx_map
  by (simp add: example_batch_def example_request_def request_without_payload_def append_id_def)

end
